theory Spec2Isabelle
  imports Main "HOL-Library.Word"
begin

section \<open>Values of the client\<close>

text \<open>
  The model covers the checksum engine (\<open>calculate_s3_etag\<close>, \<open>checksum_file\<close>), the
  single download (\<open>get_data_element\<close>, \<open>download_data_element\<close>) and the batch download
  (\<open>get_project\<close>, \<open>project_download\<close>) of \<open>ergo.py\<close>.

  File contents are byte strings. Text is \<open>string\<close>. Every exception the modelled code can
  raise is a constructor of \<open>error\<close>; \<open>exit(1)\<close> raises \<open>SystemExit 1\<close>.
\<close>

type_synonym byte = "8 word"
type_synonym bytes = "byte list"

datatype error =
    NotImplementedError string
  | ValueError string
  | RuntimeError
  | TypeError
  | IndexError
  | KeyError string
  | CalledProcessError
  | FileNotFoundError
  | IsADirectoryError
  | SystemExit nat

text \<open>
  The local directory the client runs in: a name is absent, a regular file with its bytes,
  or a directory. \<open>os.path.exists\<close> and \<open>os.path.isfile\<close> read it.
\<close>

datatype node = File bytes | Directory

type_synonym filesystem = "string \<rightharpoonup> node"

definition exists :: "filesystem \<Rightarrow> string \<Rightarrow> bool" where
  "exists files path = (files path \<noteq> None)"

definition isfile :: "filesystem \<Rightarrow> string \<Rightarrow> bool" where
  "isfile files path = (case files path of Some (File _) \<Rightarrow> True | _ \<Rightarrow> False)"

subsection \<open>Formatting\<close>

abbreviation dquote :: char where
  "dquote \<equiv> CHR 0x22"

abbreviation newline :: char where
  "newline \<equiv> CHR 0x0A"

definition digit_char :: "nat \<Rightarrow> char" where
  "digit_char d = ''0123456789abcdef'' ! (d mod 16)"

text \<open>Python's \<open>str\<close> of a non-negative integer, as \<open>format\<close> and f-strings print it.\<close>

fun str_nat :: "nat \<Rightarrow> string" where
  "str_nat n = (if n < 10 then [digit_char n] else str_nat (n div 10) @ [digit_char (n mod 10)])"

declare str_nat.simps [simp del]

text \<open>\<open>hexdigest()\<close> of a hash object: two lowercase hexadecimal digits for each byte of \<open>digest()\<close>.\<close>

definition hexdigest :: "bytes \<Rightarrow> string" where
  "hexdigest d = concat (map (\<lambda>b. [digit_char (unat b div 16), digit_char (unat b mod 16)]) d)"

section \<open>Checksum engine\<close>

text \<open>
  The loop of \<open>calculate_s3_etag\<close>: \<open>fp.read(chunk_size)\<close> until it returns no data. The
  argument is what is left of the file at the read position. A read of size 0 returns no
  data at once, so the loop ends with no chunk.
\<close>

function read_chunks :: "nat \<Rightarrow> bytes \<Rightarrow> bytes list" where
  "read_chunks chunk_size remaining =
     (if take chunk_size remaining = [] then []
      else take chunk_size remaining # read_chunks chunk_size (drop chunk_size remaining))"
  by pat_completeness auto
termination
  by (relation "measure (\<lambda>(chunk_size, remaining). length remaining)") auto

declare read_chunks.simps [simp del]

text \<open>
  \<open>calculate_s3_etag\<close>. The hash function \<open>md5\<close> (\<open>hashlib.md5\<close>, from bytes to the 16-byte
  digest) is a parameter. \<open>md5s\<close> holds the digest of each chunk in read order. Opening the
  file raises when the path is absent or a directory.
\<close>

definition calculate_s3_etag ::
  "(bytes \<Rightarrow> bytes) \<Rightarrow> filesystem \<Rightarrow> string \<Rightarrow> nat \<Rightarrow> bool \<Rightarrow> error + string" where
  "calculate_s3_etag md5 files file_path chunk_size force_chunked_output =
     (case files file_path of
        None \<Rightarrow> Inl FileNotFoundError
      | Some Directory \<Rightarrow> Inl IsADirectoryError
      | Some (File contents) \<Rightarrow>
          (let md5s = map md5 (read_chunks chunk_size contents) in
           if length md5s = 1 \<and> \<not> force_chunked_output
           then Inr ([dquote] @ hexdigest (md5s ! 0) @ [dquote])
           else Inr ([dquote] @ hexdigest (md5 (concat md5s)) @ ''-''
                       @ str_nat (length md5s) @ [dquote])))"

subsection \<open>Parsing the output of openssl\<close>

text \<open>
  \<open>result.split("= ")[1].rstrip()\<close>: Python's \<open>str.split\<close> with a separator and
  \<open>str.rstrip\<close> without argument. The separator in the source is never empty.
\<close>

function split_acc :: "string \<Rightarrow> string \<Rightarrow> string \<Rightarrow> string list" where
  "split_acc sep acc [] = [rev acc]"
| "split_acc sep acc (c # cs) =
     (if sep \<noteq> [] \<and> take (length sep) (c # cs) = sep
      then rev acc # split_acc sep [] (drop (length sep) (c # cs))
      else split_acc sep (c # acc) cs)"
  by pat_completeness auto
termination
  by (relation "measure (\<lambda>(sep, acc, s). length s)") auto

definition split :: "string \<Rightarrow> string \<Rightarrow> string list" where
  "split s sep = split_acc sep [] s"

definition whitespace :: "char \<Rightarrow> bool" where
  "whitespace c = (of_char c \<in> set [9, 10, 11, 12, 13, 28, 29, 30, 31, 32, 133, 160 :: nat])"

definition rstrip :: "string \<Rightarrow> string" where
  "rstrip s = rev (dropWhile whitespace (rev s))"

subsection \<open>checksum_file\<close>

definition algorithms :: "string list" where
  "algorithms = [''md5'', ''sha'', ''sha1'', ''md4'', ''md2'', ''mdc2'', ''sha224'', ''sha256'',
                 ''sha384'', ''sha512'', ''etag'']"

text \<open>
  \<open>checksum_file\<close>. Three things come from outside the repository and are parameters:
  \<open>md5\<close>; \<open>DEFAULT_MIN_PART_SIZE\<close>, the constant imported from \<open>smart_open.s3\<close>; and
  \<open>openssl\<close>, the decoded output of the command \<open>openssl algorithm filename\<close> on a file with
  the given bytes, \<open>None\<close> when the command exits with an error.
\<close>

definition checksum_file ::
  "(bytes \<Rightarrow> bytes) \<Rightarrow> (string \<Rightarrow> string \<Rightarrow> bytes \<Rightarrow> string option) \<Rightarrow> nat \<Rightarrow>
   filesystem \<Rightarrow> string \<Rightarrow> string \<Rightarrow> bool \<Rightarrow> error + string" where
  "checksum_file md5 openssl DEFAULT_MIN_PART_SIZE files filename algorithm force_chunked_output =
     (if algorithm \<notin> set algorithms
      then Inl (NotImplementedError (''Algorithm: '' @ algorithm @ '' not available.''))
      else if \<not> isfile files filename
      then Inl (ValueError (''File not found: '' @ filename))
      else if algorithm = ''etag''
      then calculate_s3_etag md5 files filename DEFAULT_MIN_PART_SIZE force_chunked_output
      else (case files filename of
              Some (File contents) \<Rightarrow>
                (case openssl algorithm filename contents of
                   None \<Rightarrow> Inl CalledProcessError
                 | Some result \<Rightarrow>
                     (case split result ''= '' of
                        _ # part # _ \<Rightarrow> Inr (rstrip part)
                      | _ \<Rightarrow> Inl IndexError))
            | _ \<Rightarrow> Inl (ValueError (''File not found: '' @ filename))))"

subsection \<open>The chunks as the specification describes them\<close>

text \<open>
  The specification speaks of the parts of a file at the configured part size: part \<open>i\<close> is
  the block of at most \<open>part_size\<close> bytes that starts at offset \<open>i * part_size\<close>, and there are
  as many parts as blocks needed to cover the file (the length divided by the part size,
  rounded up). These definitions follow the specification, not the loop of the source.
\<close>

definition part_count :: "nat \<Rightarrow> nat \<Rightarrow> nat" where
  "part_count part_size len = (len + part_size - 1) div part_size"

definition part :: "nat \<Rightarrow> bytes \<Rightarrow> nat \<Rightarrow> bytes" where
  "part part_size contents i = take part_size (drop (i * part_size) contents)"

definition parts :: "nat \<Rightarrow> bytes \<Rightarrow> bytes list" where
  "parts part_size contents =
     map (part part_size contents) [0..<part_count part_size (length contents)]"

section \<open>Remote service and local state\<close>

text \<open>
  A data element as the service returns it in JSON. \<open>de_extension\<close> is
  \<open>de['type']['extension']\<close>. Of \<open>de['metadata']\<close> the model keeps the keys the download reads;
  a key that may be missing is an \<open>option\<close>.
\<close>

record checksum_record =
  algorithm :: string
  checksum_value :: string

record metadata =
  sample_name :: "string option"
  orientation :: "string option"
  checksum :: "checksum_record option"

record data_element =
  de_id :: string
  de_name :: string
  de_extension :: string
  de_size :: nat
  de_metadata :: metadata

record project =
  data_elements :: "data_element list"

text \<open>
  An HTTP response: the status code, the body as text (\<open>r.text\<close>), and the decoded body the
  caller reads (\<open>r.json()[...]\<close>, or the raw bytes of a download).
\<close>

record 'a response =
  status_code :: nat
  response_text :: string
  payload :: 'a

text \<open>
  What the client depends on and does not define: the host, the imported part size, the
  hash and the openssl command, \<open>sanitize_filename.sanitize\<close>, and the service's answer to
  each of the three GET requests the download path issues, by id.
\<close>

record env =
  env_host :: string
  env_part_size :: nat
  env_md5 :: "bytes \<Rightarrow> bytes"
  env_openssl :: "string \<Rightarrow> string \<Rightarrow> bytes \<Rightarrow> string option"
  env_sanitize :: "string \<Rightarrow> string"
  element_response :: "string \<Rightarrow> data_element response"
  content_response :: "string \<Rightarrow> bytes response"
  project_response :: "string \<Rightarrow> project response"

text \<open>
  What the client changes: the files of the working directory, what it has written to
  standard output and standard error, and the URLs it has requested, in order. The progress
  bar is not modelled.
\<close>

record world =
  fs :: filesystem
  stdout :: "string list"
  stderr :: "string list"
  requests :: "string list"

definition print :: "string \<Rightarrow> world \<Rightarrow> world" where
  "print s w = w\<lparr>stdout := stdout w @ [s @ [newline]]\<rparr>"

definition stderr_write :: "string \<Rightarrow> world \<Rightarrow> world" where
  "stderr_write s w = w\<lparr>stderr := stderr w @ [s]\<rparr>"

definition request :: "string \<Rightarrow> world \<Rightarrow> world" where
  "request url w = w\<lparr>requests := requests w @ [url]\<rparr>"

definition BLOCK_SIZE :: nat where
  "BLOCK_SIZE = 10240"

section \<open>Requests\<close>

definition check_status :: "'a response \<Rightarrow> bool \<Rightarrow> world \<Rightarrow> world \<times> bool" where
  "check_status r report w =
     (if status_code r \<noteq> 200
      then ((if report
             then stderr_write (''Error: '' @ str_nat (status_code r) @ '' '' @ response_text r @ ''.'') w
             else w), False)
      else (w, True))"

definition get_data_element :: "env \<Rightarrow> string \<Rightarrow> world \<Rightarrow> world \<times> (error + data_element)" where
  "get_data_element e did w =
     (let r = element_response e did;
          (w1, ok) = check_status r True (request (env_host e @ ''user/data_elements/'' @ did) w)
      in if ok then (w1, Inr (payload r)) else (w1, Inl RuntimeError))"

text \<open>\<open>get_project\<close> returns \<open>None\<close> when the status is not 200.\<close>

definition get_project :: "env \<Rightarrow> string \<Rightarrow> world \<Rightarrow> world \<times> project option" where
  "get_project e pid w =
     (let r = project_response e pid;
          (w1, ok) = check_status r True (request (env_host e @ ''projects/'' @ pid) w)
      in if ok then (w1, Some (payload r)) else (w1, None))"

section \<open>Download of one data element\<close>

text \<open>
  \<open>download_data_element\<close>, in the order of the source. Its steps are separate definitions:
  the choice of \<open>new_name\<close> before sanitising (lines 500 to 517), the check of an existing
  local file (lines 522 to 529), the content request and the streamed write (lines 530 to
  538), and the rename (lines 539 to 543).
\<close>

definition resolve_name :: "string \<Rightarrow> string \<Rightarrow> data_element \<Rightarrow> world \<Rightarrow> world \<times> (error + string)" where
  "resolve_name rename local_name de w =
     (if rename = ''ergo_name'' then (w, Inr (de_name de))
      else if rename = ''sample_name'' then
        (case sample_name (de_metadata de) of
           None \<Rightarrow>
             (stderr_write (''Cannot name '' @ de_id de @ '' - '' @ de_name de
                 @ '' from sample name as there is no sample name present. Using ''
                 @ [CHR 0x27] @ ''ergo_name'' @ [CHR 0x27] @ '' '' @ de_name de @ [newline]) w,
              Inr (de_name de))
         | Some sample \<Rightarrow>
             (case orientation (de_metadata de) of
                None \<Rightarrow> (w, Inr (sample @ ''.'' @ de_extension de))
              | Some ori \<Rightarrow>
                  if ori = ''forward'' then (w, Inr (sample @ ''_R1'' @ ''.'' @ de_extension de))
                  else if ori = ''reverse'' then (w, Inr (sample @ ''_R2'' @ ''.'' @ de_extension de))
                  else (w, Inl (NotImplementedError ori))))
      else (w, Inr local_name))"

text \<open>
  The result is \<open>True\<close> when the function returns at once (line 527), \<open>False\<close> when it goes on
  to the content request.
\<close>

definition verify_local :: "env \<Rightarrow> string \<Rightarrow> data_element \<Rightarrow> world \<Rightarrow> world \<times> (error + bool)" where
  "verify_local e local_name de w =
     (if exists (fs w) local_name then
        (let w1 = print (local_name @ '' exists locally, verifying checksums'') w in
         case checksum (de_metadata de) of
           None \<Rightarrow> (w1, Inl (KeyError ''checksum''))
         | Some c \<Rightarrow>
             (case checksum_file (env_md5 e) (env_openssl e) (env_part_size e) (fs w1) local_name
                     (algorithm c) True of
                Inl err \<Rightarrow> (w1, Inl err)
              | Inr computed \<Rightarrow>
                  if computed = checksum_value c
                  then (print ''Checksums match, skipping download'' w1, Inr True)
                  else (print ''Checksums do not match, re-downloading'' w1, Inr False)))
      else (w, Inr False))"

text \<open>
  \<open>r.iter_content(BLOCK_SIZE)\<close> hands the body over in blocks; the file is opened for
  writing (created or truncated) and each block is appended.
\<close>

definition iter_content :: "nat \<Rightarrow> bytes \<Rightarrow> bytes list" where
  "iter_content block_size body = read_chunks block_size body"

fun write_blocks :: "bytes \<Rightarrow> bytes list \<Rightarrow> bytes" where
  "write_blocks written [] = written"
| "write_blocks written (data # rest) = write_blocks (written @ data) rest"

text \<open>The result tells whether the status was 200, that is whether the file was written.\<close>

definition fetch_content :: "env \<Rightarrow> string \<Rightarrow> string \<Rightarrow> world \<Rightarrow> world \<times> (error + bool)" where
  "fetch_content e did local_name w =
     (let r = content_response e did;
          w1 = request (env_host e @ ''user/data_elements/'' @ did @ ''/download'') w
      in if status_code r = 200 then
           (case fs w1 local_name of
              Some Directory \<Rightarrow> (w1, Inl IsADirectoryError)
            | _ \<Rightarrow>
               (w1\<lparr>fs := (fs w1)(local_name \<mapsto>
                           File (write_blocks [] (iter_content BLOCK_SIZE (payload r))))\<rparr>,
                Inr True))
         else (w1, Inr False))"

definition rename_local :: "string \<Rightarrow> string \<Rightarrow> world \<Rightarrow> world \<times> (error + unit)" where
  "rename_local local_name new_name w =
     (if new_name \<noteq> local_name then
        (if exists (fs w) new_name then
           (stderr_write ([CHR 0x0D, newline, newline] @ ''Cannot rename '' @ local_name @ '' to ''
               @ new_name @ '' because path already exists. Stopping execution ...'' @ [newline]) w,
            Inl (SystemExit 1))
         else
           (case fs w local_name of
              None \<Rightarrow> (w, Inl FileNotFoundError)
            | Some n \<Rightarrow> (w\<lparr>fs := (fs w)(local_name := None, new_name \<mapsto> n)\<rparr>, Inr ())))
      else (w, Inr ()))"

text \<open>
  The Python function returns \<open>None\<close> on every path. The model's result names the path:
  \<open>Skipped\<close> for the return at line 527, \<open>Downloaded\<close> when the content was written and the
  function reached its end, \<open>NoContent\<close> when the function reached its end and the content
  request had not answered 200.
\<close>

datatype outcome = Skipped | Downloaded | NoContent

definition download_data_element :: "env \<Rightarrow> string \<Rightarrow> string \<Rightarrow> world \<Rightarrow> world \<times> (error + outcome)" where
  "download_data_element e did rename w =
     (case get_data_element e did w of
        (w1, Inl err) \<Rightarrow> (w1, Inl err)
      | (w1, Inr de) \<Rightarrow>
          (case resolve_name rename (did @ ''.'' @ de_extension de) de w1 of
             (w2, Inl err) \<Rightarrow> (w2, Inl err)
           | (w2, Inr chosen) \<Rightarrow>
               (let local_name = env_sanitize e (did @ ''.'' @ de_extension de);
                    new_name = env_sanitize e chosen
                in case verify_local e local_name de w2 of
                     (w3, Inl err) \<Rightarrow> (w3, Inl err)
                   | (w3, Inr True) \<Rightarrow> (w3, Inr Skipped)
                   | (w3, Inr False) \<Rightarrow>
                       (case fetch_content e did local_name w3 of
                          (w4, Inl err) \<Rightarrow> (w4, Inl err)
                        | (w4, Inr written) \<Rightarrow>
                            (case rename_local local_name new_name w4 of
                               (w5, Inl err) \<Rightarrow> (w5, Inl err)
                             | (w5, Inr _) \<Rightarrow>
                                 (w5, Inr (if written then Downloaded else NoContent)))))))"

section \<open>Download of a project\<close>

text \<open>
  The loop of \<open>project_download\<close> over \<open>project["data_elements"]\<close>. Nothing in it catches an
  exception: the first one ends the loop and leaves the function.
\<close>

fun download_each :: "env \<Rightarrow> string list \<Rightarrow> string \<Rightarrow> data_element list \<Rightarrow> world \<Rightarrow> world \<times> (error + unit)" where
  "download_each e flt rename [] w = (w, Inr ())"
| "download_each e flt rename (de # rest) w =
     (if length flt > 0 \<and> de_extension de \<notin> set flt then download_each e flt rename rest w
      else (case download_data_element e (de_id de) rename w of
              (w1, Inl err) \<Rightarrow> (w1, Inl err)
            | (w1, Inr _) \<Rightarrow> download_each e flt rename rest w1))"

definition project_download :: "env \<Rightarrow> string \<Rightarrow> string list \<Rightarrow> string \<Rightarrow> world \<Rightarrow> world \<times> (error + unit)" where
  "project_download e pid flt rename w =
     (case get_project e pid w of
        (w1, None) \<Rightarrow> (w1, Inl TypeError)
      | (w1, Some p) \<Rightarrow> download_each e flt rename (data_elements p) w1)"

section \<open>A sample service\<close>

text \<open>
  Concrete values for the parameters, for evaluating the model on inputs. \<open>sample_md5\<close>
  stands for the hash (two bytes: the length and the byte sum, both modulo 256),
  \<open>sample_openssl\<close> prints it the way openssl prints a digest, \<open>sample_sanitize\<close> removes
  path separators and the other characters a file name may not hold. The service knows
  five data elements: \<open>e1\<close> (sample \<open>X\<close>, forward), \<open>e2\<close> (its metadata request answers 404),
  \<open>e3\<close> (sample \<open>X\<close>, reverse; its content request answers 500), \<open>e4\<close> (no sample name) and
  \<open>e5\<close> (sample \<open>X\<close>, orientation \<open>unknown\<close>). Every content served is the three bytes 1, 2, 3,
  and every recorded checksum is the forced-chunked etag of these bytes under
  \<open>sample_md5\<close> at part size 8. Project \<open>p1\<close> holds \<open>e2\<close> and \<open>e1\<close>, in this order.
\<close>

definition sample_md5 :: "bytes \<Rightarrow> bytes" where
  "sample_md5 data = [of_nat (length data), of_nat (sum_list (map unat data))]"

definition sample_openssl :: "string \<Rightarrow> string \<Rightarrow> bytes \<Rightarrow> string option" where
  "sample_openssl alg filename data =
     Some (alg @ ''('' @ filename @ '')= '' @ hexdigest (sample_md5 data) @ [newline])"

definition sample_sanitize :: "string \<Rightarrow> string" where
  "sample_sanitize s = filter (\<lambda>c. c \<notin> set ''/:*?<>|'') s"

definition sample_metadata :: "string \<Rightarrow> metadata" where
  "sample_metadata did =
     \<lparr>sample_name = (if did = ''e4'' then None else Some ''X''),
      orientation = (if did = ''e5'' then Some ''unknown''
                     else if did = ''e3'' then Some ''reverse'' else Some ''forward''),
      checksum = Some \<lparr>algorithm = ''etag'', checksum_value = [dquote] @ ''0209-1'' @ [dquote]\<rparr>\<rparr>"

definition sample_element :: "string \<Rightarrow> data_element" where
  "sample_element did =
     \<lparr>de_id = did, de_name = ''reads_'' @ did @ ''.fastq.gz'', de_extension = ''fastq.gz'',
      de_size = 3, de_metadata = sample_metadata did\<rparr>"

definition sample_env :: env where
  "sample_env =
     \<lparr>env_host = ''https://ergo.igenbio.com/REST/api/ERGO/v1.0/'',
      env_part_size = 8,
      env_md5 = sample_md5,
      env_openssl = sample_openssl,
      env_sanitize = sample_sanitize,
      element_response = (\<lambda>did.
         if did = ''e2''
         then \<lparr>status_code = 404, response_text = ''Not Found'', payload = sample_element did\<rparr>
         else \<lparr>status_code = 200, response_text = [], payload = sample_element did\<rparr>),
      content_response = (\<lambda>did.
         if did = ''e3''
         then \<lparr>status_code = 500, response_text = ''Internal Server Error'', payload = []\<rparr>
         else \<lparr>status_code = 200, response_text = [], payload = [1, 2, 3]\<rparr>),
      project_response = (\<lambda>pid.
         \<lparr>status_code = 200, response_text = [],
          payload = \<lparr>data_elements = [sample_element ''e2'', sample_element ''e1'']\<rparr>\<rparr>)\<rparr>"

definition empty_world :: world where
  "empty_world = \<lparr>fs = Map.empty, stdout = [], stderr = [], requests = []\<rparr>"

text \<open>
  Two more directories: one where the display name of \<open>e1\<close> is already taken by another
  file, and one that holds an outdated copy of \<open>e1\<close> under its id-based name.
\<close>

definition occupied_world :: world where
  "occupied_world =
     \<lparr>fs = [''reads_e1.fastq.gz'' \<mapsto> File [9]], stdout = [], stderr = [], requests = []\<rparr>"

definition stale_world :: world where
  "stale_world =
     \<lparr>fs = [''e1.fastq.gz'' \<mapsto> File [7]], stdout = [], stderr = [], requests = []\<rparr>"

section \<open>The read loop and the parts of a file\<close>

text \<open>
  The loop of the source reads exactly the parts the specification describes, whenever the
  part size is positive: the same blocks, in the same order, none of them empty, and
  together they are the file.
\<close>

lemma part_count_step:
  assumes "0 < n" "0 < len"
  shows "part_count n len = Suc (part_count n (len - n))"
proof (cases "n \<le> len")
  case True
  then have "len + n - 1 = (len - n + n - 1) + n" using assms by simp
  then show ?thesis unfolding part_count_def using assms by (metis div_add_self2 Suc_eq_plus1 less_numeral_extra(3))
next
  case False
  then have "len - n = 0" "n \<le> len + n - 1" "len + n - 1 < 2 * n" using assms by simp_all
  then show ?thesis unfolding part_count_def using assms
    by (simp add: div_nat_eqI)
qed

lemma read_chunks_parts: "0 < n \<Longrightarrow> read_chunks n bs = parts n bs"
proof (induction n bs rule: read_chunks.induct)
  case (1 n bs)
  show ?case
  proof (cases "bs = []")
    case True
    then show ?thesis using 1(2) by (simp add: read_chunks.simps parts_def part_count_def)
  next
    case False
    then have ne: "take n bs \<noteq> []" using 1(2) by simp
    have IH: "read_chunks n (drop n bs) = parts n (drop n bs)" using 1 ne by simp
    have pc: "part_count n (length bs) = Suc (part_count n (length bs - n))"
      using part_count_step False 1(2) by simp
    have "[0..<Suc k] = 0 # map Suc [0..<k]" for k
      by (simp add: upt_conv_Cons map_Suc_upt del: upt_Suc)
    then have "parts n bs = part n bs 0 # map (part n bs \<circ> Suc) [0..<part_count n (length bs - n)]"
      unfolding parts_def pc by simp
    also have "part n bs \<circ> Suc = part n (drop n bs)"
      by (rule ext) (simp add: part_def add.commute)
    finally have "parts n bs = take n bs # parts n (drop n bs)"
      by (simp add: parts_def part_def)
    then show ?thesis using ne IH by (subst read_chunks.simps) simp
  qed
qed

lemma concat_read_chunks: "0 < n \<Longrightarrow> concat (read_chunks n bs) = bs"
proof (induction n bs rule: read_chunks.induct)
  case (1 n bs)
  then show ?case by (subst read_chunks.simps) auto
qed

lemma read_chunks_nonempty: "[] \<notin> set (read_chunks n bs)"
proof (induction n bs rule: read_chunks.induct)
  case (1 n bs)
  then show ?case by (subst read_chunks.simps) auto
qed

section \<open>Properties of the checksum engine\<close>

text \<open>
  Claim C1. For every regular file and every positive part size,
  \<open>checksum_file\<close> with algorithm \<open>etag\<close> and \<open>force_chunked_output\<close> set returns, between
  double quotes, the hexadecimal MD5 of the concatenated raw digests of the parts of the file
  in read order, a hyphen, and the number of parts in decimal. The parts are those of the
  specification (\<open>parts\<close>); they are non-empty and their concatenation is the file.
\<close>

theorem checksum_etag_forced:
  assumes "files path = Some (File contents)" and "0 < part_size"
  shows "checksum_file md5 openssl part_size files path ''etag'' True =
           Inr ([dquote] @ hexdigest (md5 (concat (map md5 (parts part_size contents)))) @ ''-''
                  @ str_nat (part_count part_size (length contents)) @ [dquote])
         \<and> concat (parts part_size contents) = contents
         \<and> [] \<notin> set (parts part_size contents)"
  using assms read_chunks_parts [of part_size contents] concat_read_chunks [of part_size contents]
    read_chunks_nonempty [of part_size contents]
  by (simp add: checksum_file_def algorithms_def isfile_def calculate_s3_etag_def parts_def)

theorem checksum_etag_forced_witness:
  "checksum_file sample_md5 sample_openssl 2 [''reads.bin'' \<mapsto> File [1, 2, 3]] ''reads.bin'' ''etag'' True
     = Inr ([dquote] @ ''0409-2'' @ [dquote])
   \<and> parts 2 [1, 2, 3] = [[1, 2], [3]]"
  using checksum_etag_forced [of "[''reads.bin'' \<mapsto> File [1, 2, 3]]" "''reads.bin''" "[1, 2, 3]" 2
      sample_md5 sample_openssl]
  by (simp add: parts_def part_def part_count_def sample_md5_def hexdigest_def digit_char_def
      str_nat.simps upt_conv_Cons)

text \<open>
  A non-empty file no longer than the part size is read as one chunk, and without
  \<open>force_chunked_output\<close> its etag is the quoted hexadecimal MD5 of the whole file.
\<close>

lemma read_chunks_single:
  assumes "bs \<noteq> []" "length bs \<le> n"
  shows "read_chunks n bs = [bs]"
proof -
  from assms have "0 < n" by (cases n) auto
  with assms show ?thesis
    by (subst read_chunks.simps, subst read_chunks.simps) simp
qed

lemma etag_single_part:
  assumes "files path = Some (File contents)" "contents \<noteq> []" "length contents \<le> part_size"
  shows "checksum_file md5 openssl part_size files path ''etag'' False =
           Inr ([dquote] @ hexdigest (md5 contents) @ [dquote])"
  using assms read_chunks_single [of contents part_size]
  by (simp add: checksum_file_def algorithms_def isfile_def calculate_s3_etag_def)

text \<open>
  Claim C4, at the empty file. The loop reads no chunk, \<open>md5s\<close> is empty, the test
  \<open>len(md5s) == 1\<close> fails, and the function returns the chunked form with the count 0
  although \<open>force_chunked_output\<close> is not set. The result is not the quoted hexadecimal MD5
  of the file: it carries the suffix \<open>-0\<close>.
\<close>

theorem etag_of_empty_file:
  "checksum_file md5 openssl part_size [''empty.bin'' \<mapsto> File []] ''empty.bin'' ''etag'' False
     = Inr ([dquote] @ hexdigest (md5 []) @ ''-0'' @ [dquote])
   \<and> checksum_file md5 openssl part_size [''empty.bin'' \<mapsto> File []] ''empty.bin'' ''etag'' False
     \<noteq> Inr ([dquote] @ hexdigest (md5 []) @ [dquote])"
  by (simp add: checksum_file_def algorithms_def isfile_def calculate_s3_etag_def
      read_chunks.simps str_nat.simps digit_char_def)

text \<open>
  Claim C8. \<open>checksum_file\<close> raises \<open>NotImplementedError\<close> exactly when the algorithm is not
  one of the eleven listed names, whatever the path is; and it raises \<open>ValueError\<close> (file not
  found) exactly when the algorithm is listed and the path is not a regular file. The
  algorithm is checked first, so an unknown algorithm is reported also for a missing file.
\<close>

theorem checksum_file_errors:
  "set algorithms = {''md5'', ''sha'', ''sha1'', ''md4'', ''md2'', ''mdc2'', ''sha224'', ''sha256'',
                     ''sha384'', ''sha512'', ''etag''}
   \<and> ((\<exists>msg. checksum_file md5 openssl part_size files path alg force = Inl (NotImplementedError msg))
        \<longleftrightarrow> alg \<notin> set algorithms)
   \<and> ((\<exists>msg. checksum_file md5 openssl part_size files path alg force = Inl (ValueError msg))
        \<longleftrightarrow> alg \<in> set algorithms \<and> \<not> isfile files path)
   \<and> (alg \<notin> set algorithms \<longrightarrow>
        checksum_file md5 openssl part_size files path alg force
          = Inl (NotImplementedError (''Algorithm: '' @ alg @ '' not available.'')))
   \<and> (alg \<in> set algorithms \<and> \<not> isfile files path \<longrightarrow>
        checksum_file md5 openssl part_size files path alg force
          = Inl (ValueError (''File not found: '' @ path)))"
proof -
  have a: "set algorithms = {''md5'', ''sha'', ''sha1'', ''md4'', ''md2'', ''mdc2'', ''sha224'', ''sha256'',
                     ''sha384'', ''sha512'', ''etag''}"
    by (simp add: algorithms_def)
  have b: "alg \<notin> set algorithms \<Longrightarrow> checksum_file md5 openssl part_size files path alg force
          = Inl (NotImplementedError (''Algorithm: '' @ alg @ '' not available.''))"
    by (simp add: checksum_file_def)
  have c: "alg \<in> set algorithms \<Longrightarrow> \<not> isfile files path \<Longrightarrow> checksum_file md5 openssl part_size files path alg force
          = Inl (ValueError (''File not found: '' @ path))"
    by (simp add: checksum_file_def)
  have d: "alg \<in> set algorithms \<Longrightarrow> isfile files path \<Longrightarrow>
     checksum_file md5 openssl part_size files path alg force \<noteq> Inl (NotImplementedError m)
     \<and> checksum_file md5 openssl part_size files path alg force \<noteq> Inl (ValueError m)" for m
    by (auto simp: checksum_file_def isfile_def calculate_s3_etag_def Let_def
        split: option.splits node.splits list.splits)
  show ?thesis
    apply (intro conjI)
        apply (rule a)
    using b c d apply (metis error.distinct(1) sum.inject(1))
    using b c d apply (metis error.distinct(1) sum.inject(1))
    using b apply blast
    using c apply blast
    done
qed

theorem checksum_file_errors_witness:
  "checksum_file sample_md5 sample_openssl 8 Map.empty ''absent.bin'' ''crc32'' True
     = Inl (NotImplementedError ''Algorithm: crc32 not available.'')
   \<and> checksum_file sample_md5 sample_openssl 8 Map.empty ''absent.bin'' ''sha256'' True
     = Inl (ValueError ''File not found: absent.bin'')"
  using checksum_file_errors [of sample_md5 sample_openssl 8 Map.empty "''absent.bin''" "''crc32''" True]
    checksum_file_errors [of sample_md5 sample_openssl 8 Map.empty "''absent.bin''" "''sha256''" True]
  by (simp add: isfile_def)

section \<open>Steps of the download\<close>

text \<open>What each step does to the world, and when it goes which way.\<close>

lemma fs_print [simp]: "fs (print s w) = fs w"
  and fs_stderr_write [simp]: "fs (stderr_write s w) = fs w"
  and fs_request [simp]: "fs (request u w) = fs w"
  by (simp_all add: print_def stderr_write_def request_def)

lemma requests_print [simp]: "requests (print s w) = requests w"
  and requests_stderr_write [simp]: "requests (stderr_write s w) = requests w"
  and requests_request [simp]: "requests (request u w) = requests w @ [u]"
  by (simp_all add: print_def stderr_write_def request_def)

lemma stderr_print [simp]: "stderr (print s w) = stderr w"
  and stderr_stderr_write [simp]: "stderr (stderr_write s w) = stderr w @ [s]"
  and stderr_request [simp]: "stderr (request u w) = stderr w"
  by (simp_all add: print_def stderr_write_def request_def)

lemma get_data_element_ok:
  "status_code (element_response e did) = 200 \<Longrightarrow>
   get_data_element e did w =
     (request (env_host e @ ''user/data_elements/'' @ did) w, Inr (payload (element_response e did)))"
  by (simp add: get_data_element_def check_status_def)

lemma get_data_element_error:
  "status_code (element_response e did) \<noteq> 200 \<Longrightarrow>
   get_data_element e did w =
     (stderr_write (''Error: '' @ str_nat (status_code (element_response e did)) @ '' ''
                      @ response_text (element_response e did) @ ''.'')
        (request (env_host e @ ''user/data_elements/'' @ did) w),
      Inl RuntimeError)"
  by (simp add: get_data_element_def check_status_def Let_def)

lemma resolve_name_fs [simp]: "fs (fst (resolve_name rename l de w)) = fs w"
  and resolve_name_requests [simp]: "requests (fst (resolve_name rename l de w)) = requests w"
  by (simp_all add: resolve_name_def split: option.splits)

lemma resolve_name_result: "snd (resolve_name rename l de w) = snd (resolve_name rename l de w')"
  by (simp add: resolve_name_def split: option.splits)

lemma verify_local_fs [simp]: "fs (fst (verify_local e l de w)) = fs w"
  and verify_local_requests [simp]: "requests (fst (verify_local e l de w)) = requests w"
  and verify_local_stderr [simp]: "stderr (fst (verify_local e l de w)) = stderr w"
  by (simp_all add: verify_local_def Let_def split: option.splits sum.splits)

lemma verify_local_result:
  "fs w = fs w' \<Longrightarrow> snd (verify_local e l de w) = snd (verify_local e l de w')"
  by (simp add: verify_local_def Let_def split: option.splits sum.splits)

lemma verify_local_absent:
  "\<not> exists (fs w) l \<Longrightarrow> verify_local e l de w = (w, Inr False)"
  by (simp add: verify_local_def)

lemma checksum_file_Inr_isfile:
  "checksum_file md5 openssl n files path alg force = Inr v \<Longrightarrow> isfile files path"
  by (simp add: checksum_file_def split: if_splits)

lemma verify_local_no_directory:
  "snd (verify_local e l de w) = Inr b \<Longrightarrow> fs w l \<noteq> Some Directory"
  by (auto simp: verify_local_def Let_def exists_def isfile_def
      dest!: checksum_file_Inr_isfile split: option.splits sum.splits if_splits)

lemma verify_local_match:
  assumes "checksum (de_metadata de) = Some c"
    and "checksum_file (env_md5 e) (env_openssl e) (env_part_size e) (fs w) l (algorithm c) True
           = Inr (checksum_value c)"
  shows "verify_local e l de w =
           (print ''Checksums match, skipping download''
              (print (l @ '' exists locally, verifying checksums'') w), Inr True)"
proof -
  from assms(2) have "isfile (fs w) l" by (rule checksum_file_Inr_isfile)
  then have "exists (fs w) l" by (auto simp: isfile_def exists_def split: option.splits)
  with assms show ?thesis by (simp add: verify_local_def Let_def)
qed

lemma write_blocks_append: "write_blocks written blocks = written @ concat blocks"
  by (induction blocks arbitrary: written) simp_all

lemma written_content: "write_blocks [] (iter_content BLOCK_SIZE body) = body"
  by (simp add: write_blocks_append iter_content_def BLOCK_SIZE_def concat_read_chunks)

lemma fetch_content_ok:
  assumes "status_code (content_response e did) = 200" "fs w l \<noteq> Some Directory"
  shows "fetch_content e did l w =
           ((request (env_host e @ ''user/data_elements/'' @ did @ ''/download'') w)
              \<lparr>fs := (fs w)(l \<mapsto> File (payload (content_response e did)))\<rparr>, Inr True)"
  using assms
  by (auto simp: fetch_content_def Let_def written_content split: option.splits node.splits)

lemma fetch_content_error:
  assumes "status_code (content_response e did) \<noteq> 200"
  shows "fetch_content e did l w =
           (request (env_host e @ ''user/data_elements/'' @ did @ ''/download'') w, Inr False)"
  using assms by (simp add: fetch_content_def Let_def)

lemma fetch_content_other:
  "l' \<noteq> l \<Longrightarrow> fs (fst (fetch_content e did l w)) l' = fs w l'"
  by (simp add: fetch_content_def Let_def split: option.splits node.splits)

lemma fetch_content_no_error:
  "fs w l \<noteq> Some Directory \<Longrightarrow> \<exists>b. snd (fetch_content e did l w) = Inr b"
  by (auto simp: fetch_content_def Let_def split: option.splits node.splits)

lemma rename_local_collision:
  assumes "new \<noteq> l" "exists (fs w) new"
  shows "rename_local l new w =
          (stderr_write ([CHR 0x0D, newline, newline] @ ''Cannot rename '' @ l @ '' to ''
               @ new @ '' because path already exists. Stopping execution ...'' @ [newline]) w,
           Inl (SystemExit 1))"
  using assms by (simp add: rename_local_def)

text \<open>
  Once the metadata request has answered 200 and a name has been chosen, the call is the
  check of the local file, the content request and the rename, on the two sanitised names.
\<close>

lemma download_steps:
  assumes meta: "status_code (element_response e did) = 200"
    and de: "de = payload (element_response e did)"
    and named: "snd (resolve_name rename (did @ ''.'' @ de_extension de) de w) = Inr chosen"
    and w2: "w2 = fst (resolve_name rename (did @ ''.'' @ de_extension de) de
                         (request (env_host e @ ''user/data_elements/'' @ did) w))"
    and l: "l = env_sanitize e (did @ ''.'' @ de_extension de)"
    and new: "new = env_sanitize e chosen"
  shows "download_data_element e did rename w =
     (case verify_local e l de w2 of
        (w3, Inl err) \<Rightarrow> (w3, Inl err)
      | (w3, Inr True) \<Rightarrow> (w3, Inr Skipped)
      | (w3, Inr False) \<Rightarrow>
          (case fetch_content e did l w3 of
             (w4, Inl err) \<Rightarrow> (w4, Inl err)
           | (w4, Inr written) \<Rightarrow>
               (case rename_local l new w4 of
                  (w5, Inl err) \<Rightarrow> (w5, Inl err)
                | (w5, Inr _) \<Rightarrow> (w5, Inr (if written then Downloaded else NoContent)))))"
proof -
  let ?w1 = "request (env_host e @ ''user/data_elements/'' @ did) w"
  have "snd (resolve_name rename (did @ ''.'' @ de_extension de) de ?w1) = Inr chosen"
    using named resolve_name_result by metis
  then have r: "resolve_name rename (did @ ''.'' @ de_extension de) de ?w1 = (w2, Inr chosen)"
    using w2 by (metis prod.collapse)
  show ?thesis
    by (simp only: download_data_element_def get_data_element_ok [OF meta] de [symmetric]
        prod.case sum.case r Let_def l [symmetric] new [symmetric])
qed

lemmas sample_defs = sample_env_def sample_element_def sample_metadata_def sample_sanitize_def
  empty_world_def

section \<open>Properties of the naming\<close>

text \<open>
  Claim C6. Under the choice \<open>sample_name\<close>, for a data element whose metadata has a sample
  name, the name chosen (before both names are sanitised) is the sample name followed by
  \<open>_R1\<close>, a dot and the extension when the orientation is \<open>forward\<close>, and by \<open>_R2\<close>, a dot and
  the extension when it is \<open>reverse\<close>. For any other orientation value the choice raises
  \<open>NotImplementedError\<close> with that value, and the download of such an element ends with this
  exception right after the metadata request.
\<close>

theorem sample_name_orientation_suffix:
  assumes "sample_name (de_metadata de) = Some sample"
  shows "(orientation (de_metadata de) = Some ''forward'' \<longrightarrow>
            resolve_name ''sample_name'' l de w
              = (w, Inr (sample @ ''_R1'' @ ''.'' @ de_extension de)))
       \<and> (orientation (de_metadata de) = Some ''reverse'' \<longrightarrow>
            resolve_name ''sample_name'' l de w
              = (w, Inr (sample @ ''_R2'' @ ''.'' @ de_extension de)))
       \<and> (\<forall>ori. orientation (de_metadata de) = Some ori \<and> ori \<noteq> ''forward'' \<and> ori \<noteq> ''reverse'' \<longrightarrow>
            resolve_name ''sample_name'' l de w = (w, Inl (NotImplementedError ori))
            \<and> (\<forall>e did w'. status_code (element_response e did) = 200
                   \<and> payload (element_response e did) = de \<longrightarrow>
                 download_data_element e did ''sample_name'' w'
                   = (request (env_host e @ ''user/data_elements/'' @ did) w',
                      Inl (NotImplementedError ori))))"
  using assms
  by (auto simp: resolve_name_def download_data_element_def get_data_element_ok)

theorem sample_name_orientation_suffix_witness:
  "resolve_name ''sample_name'' ''e1.fastq.gz'' (sample_element ''e1'') empty_world
     = (empty_world, Inr ''X_R1.fastq.gz'')
   \<and> resolve_name ''sample_name'' ''e3.fastq.gz'' (sample_element ''e3'') empty_world
     = (empty_world, Inr ''X_R2.fastq.gz'')
   \<and> resolve_name ''sample_name'' ''e5.fastq.gz'' (sample_element ''e5'') empty_world
     = (empty_world, Inl (NotImplementedError ''unknown''))
   \<and> snd (download_data_element sample_env ''e5'' ''sample_name'' empty_world)
     = Inl (NotImplementedError ''unknown'')"
  using sample_name_orientation_suffix [of "sample_element ''e1''" "''X''" "''e1.fastq.gz''" empty_world]
    sample_name_orientation_suffix [of "sample_element ''e3''" "''X''" "''e3.fastq.gz''" empty_world]
    sample_name_orientation_suffix [of "sample_element ''e5''" "''X''" "''e5.fastq.gz''" empty_world]
  by (simp add: sample_element_def sample_metadata_def sample_env_def)

text \<open>
  Claim C7. Under the choice \<open>sample_name\<close>, for a data element whose metadata has no sample
  name, nothing is raised: a warning goes to standard error and the name chosen is the
  element's \<open>name\<close> field, the same as under the choice \<open>ergo_name\<close>.
\<close>

theorem missing_sample_name_falls_back:
  assumes "sample_name (de_metadata de) = None"
  shows "resolve_name ''sample_name'' l de w
           = (stderr_write (''Cannot name '' @ de_id de @ '' - '' @ de_name de
                 @ '' from sample name as there is no sample name present. Using ''
                 @ [CHR 0x27] @ ''ergo_name'' @ [CHR 0x27] @ '' '' @ de_name de @ [newline]) w,
              Inr (de_name de))
       \<and> snd (resolve_name ''sample_name'' l de w) = snd (resolve_name ''ergo_name'' l de w)"
  using assms by (simp add: resolve_name_def)

theorem missing_sample_name_falls_back_witness:
  "snd (resolve_name ''sample_name'' ''e4.fastq.gz'' (sample_element ''e4'') empty_world)
     = Inr ''reads_e4.fastq.gz''
   \<and> stderr (fst (resolve_name ''sample_name'' ''e4.fastq.gz'' (sample_element ''e4'') empty_world))
     = [''Cannot name e4 - reads_e4.fastq.gz from sample name as there is no sample name present. Using ''
          @ [CHR 0x27] @ ''ergo_name'' @ [CHR 0x27] @ '' reads_e4.fastq.gz'' @ [newline]]"
  using missing_sample_name_falls_back [of "sample_element ''e4''" "''e4.fastq.gz''" empty_world]
  by (simp add: sample_element_def sample_metadata_def empty_world_def)

section \<open>Properties of the download\<close>

text \<open>
  Claim C3, where the code departs from it. When the content request answers a status other
  than 200, the name is the id-based one and no such file exists yet, the call writes
  nothing to standard error, raises nothing and returns as after a download: the world
  differs only by the two requests made. The status and the body of the answer are lost.
\<close>

theorem content_error_not_reported:
  assumes "status_code (element_response e did) = 200"
    and "status_code (content_response e did) \<noteq> 200"
    and "rename \<noteq> ''ergo_name''" and "rename \<noteq> ''sample_name''"
    and "\<not> exists (fs w) (env_sanitize e (did @ ''.'' @ de_extension (payload (element_response e did))))"
  shows "download_data_element e did rename w =
           (request (env_host e @ ''user/data_elements/'' @ did @ ''/download'')
              (request (env_host e @ ''user/data_elements/'' @ did) w), Inr NoContent)"
proof -
  let ?de = "payload (element_response e did)"
  have named: "resolve_name rename (did @ ''.'' @ de_extension ?de) ?de w' =
                 (w', Inr (did @ ''.'' @ de_extension ?de))" for w'
    using assms(3,4) by (simp add: resolve_name_def)
  have chosen: "snd (resolve_name rename (did @ ''.'' @ de_extension ?de) ?de w) =
                 Inr (did @ ''.'' @ de_extension ?de)"
    by (simp only: named snd_conv)
  have absent: "verify_local e (env_sanitize e (did @ ''.'' @ de_extension ?de)) ?de
                  (request (env_host e @ ''user/data_elements/'' @ did) w)
                = (request (env_host e @ ''user/data_elements/'' @ did) w, Inr False)"
    by (rule verify_local_absent) (use assms(5) in simp)
  show ?thesis
    unfolding download_steps [OF assms(1) refl chosen refl refl refl]
    by (simp only: named fst_conv absent prod.case sum.case bool.case
        fetch_content_error [OF assms(2)] rename_local_def simp_thms if_False)
qed

theorem content_error_not_reported_witness:
  "snd (download_data_element sample_env ''e3'' ''ergo_id'' empty_world) = Inr NoContent
   \<and> stderr (fst (download_data_element sample_env ''e3'' ''ergo_id'' empty_world)) = []
   \<and> requests (fst (download_data_element sample_env ''e3'' ''ergo_id'' empty_world))
       = [''https://ergo.igenbio.com/REST/api/ERGO/v1.0/user/data_elements/e3'',
          ''https://ergo.igenbio.com/REST/api/ERGO/v1.0/user/data_elements/e3/download'']
   \<and> status_code (content_response sample_env ''e3'') = 500"
  using content_error_not_reported [of sample_env "''e3''" "''ergo_id''" empty_world]
  by (simp add: sample_defs exists_def)

section \<open>Properties of the batch download\<close>

text \<open>
  Claim C9, as amended. In the loop of \<open>project_download\<close>, when the metadata request of the
  element in turn answers a status other than 200, the status and body are written to
  standard error, \<open>RuntimeError\<close> is raised and the loop ends with it: whatever elements
  remain are not processed.
\<close>

theorem batch_stops_at_metadata_error:
  assumes "status_code (element_response e (de_id item)) \<noteq> 200"
    and "flt = [] \<or> de_extension item \<in> set flt"
  shows "download_each e flt rename (item # rest) w =
           (stderr_write (''Error: '' @ str_nat (status_code (element_response e (de_id item)))
                            @ '' '' @ response_text (element_response e (de_id item)) @ ''.'')
              (request (env_host e @ ''user/data_elements/'' @ de_id item) w),
            Inl RuntimeError)"
  using assms
  by (auto simp: download_data_element_def get_data_element_error)

theorem batch_stops_at_metadata_error_witness:
  "download_each sample_env [] ''ergo_name'' [sample_element ''e2'', sample_element ''e1''] empty_world
     = (stderr_write ''Error: 404 Not Found.''
          (request ''https://ergo.igenbio.com/REST/api/ERGO/v1.0/user/data_elements/e2'' empty_world),
        Inl RuntimeError)"
  using batch_stops_at_metadata_error [of sample_env "sample_element ''e2''" "[]" "''ergo_name''"
      "[sample_element ''e1'']" empty_world]
  by (simp add: sample_env_def sample_element_def str_nat.simps digit_char_def)

text \<open>
  Claim C9 as stated fails on project \<open>p1\<close> of the sample service: the metadata request of
  its first element answers 404, the batch ends with \<open>RuntimeError\<close>, and the second element
  is neither requested nor written.
\<close>

theorem batch_continues_counterexample:
  "snd (project_download sample_env ''p1'' [] ''ergo_id'' empty_world) = Inl RuntimeError
   \<and> requests (fst (project_download sample_env ''p1'' [] ''ergo_id'' empty_world))
       = [''https://ergo.igenbio.com/REST/api/ERGO/v1.0/projects/p1'',
          ''https://ergo.igenbio.com/REST/api/ERGO/v1.0/user/data_elements/e2'']
   \<and> fs (fst (project_download sample_env ''p1'' [] ''ergo_id'' empty_world)) ''e1.fastq.gz'' = None"
  by (simp add: project_download_def get_project_def check_status_def download_data_element_def
      get_data_element_def sample_defs Let_def)

section \<open>Skipping and colliding\<close>




text \<open>
  When the name chosen differs from the id-based name and is taken, a call that gets past
  the check of the local file ends with \<open>exit(1)\<close>, whatever the content request answers.
\<close>

lemma taken_name_stops_call:
  assumes meta: "status_code (element_response e did) = 200"
    and de: "de = payload (element_response e did)"
    and l: "l = env_sanitize e (did @ ''.'' @ de_extension de)"
    and named: "snd (resolve_name rename (did @ ''.'' @ de_extension de) de w) = Inr chosen"
    and new: "new = env_sanitize e chosen"
    and differ: "new \<noteq> l"
    and taken: "exists (fs w) new"
    and unskipped: "snd (verify_local e l de w) = Inr False"
  shows "\<exists>w4. download_data_element e did rename w =
           (stderr_write ([CHR 0x0D, newline, newline] @ ''Cannot rename '' @ l @ '' to '' @ new
               @ '' because path already exists. Stopping execution ...'' @ [newline]) w4,
            Inl (SystemExit 1))"
proof -
  let ?w2 = "fst (resolve_name rename (did @ ''.'' @ de_extension de) de
                    (request (env_host e @ ''user/data_elements/'' @ did) w))"
  let ?msg = "[CHR 0x0D, newline, newline] @ ''Cannot rename '' @ l @ '' to '' @ new
               @ '' because path already exists. Stopping execution ...'' @ [newline]"
  have fs2: "fs ?w2 = fs w" by simp
  have "snd (verify_local e l de ?w2) = Inr False"
    using unskipped verify_local_result [OF fs2] by metis
  then obtain w3 where v: "verify_local e l de ?w2 = (w3, Inr False)" by (metis prod.collapse)
  have "fs (fst (verify_local e l de ?w2)) = fs ?w2" by (rule verify_local_fs)
  then have fs3: "fs w3 = fs w" by (simp only: v fst_conv fs2)
  have "fs w l \<noteq> Some Directory" using unskipped by (rule verify_local_no_directory)
  then have "fs w3 l \<noteq> Some Directory" by (simp add: fs3)
  then obtain b where "snd (fetch_content e did l w3) = Inr b"
    using fetch_content_no_error by blast
  then obtain w4 where f: "fetch_content e did l w3 = (w4, Inr b)" by (metis prod.collapse)
  have "fs (fst (fetch_content e did l w3)) new = fs w3 new"
    using differ by (rule fetch_content_other)
  then have "fs w4 new = fs w new" by (simp only: f fst_conv fs3)
  then have "exists (fs w4) new" using taken by (simp add: exists_def)
  then have c: "rename_local l new w4 = (stderr_write ?msg w4, Inl (SystemExit 1))"
    by (rule rename_local_collision [OF differ])
  have d: "download_data_element e did rename w = (stderr_write ?msg w4, Inl (SystemExit 1))"
    unfolding download_steps [OF meta de named refl l new]
    by (simp only: v f c prod.case sum.case bool.case)
  then show ?thesis by blast
qed


lemma sample_etag:
  "checksum_file sample_md5 sample_openssl 8 [''e1.fastq.gz'' \<mapsto> File [1, 2, 3]] ''e1.fastq.gz''
     ''etag'' True = Inr ([dquote] @ ''0209-1'' @ [dquote])"
  by (simp add: checksum_file_def algorithms_def isfile_def calculate_s3_etag_def
      read_chunks.simps sample_md5_def hexdigest_def digit_char_def str_nat.simps)

text \<open>
  Claim C5. When the metadata request answers 200, the name chosen differs (after
  sanitising) from the id-based name, a file or directory already has that name, and the
  check of the local file does not end the call, then the call writes the collision
  message to standard error and raises \<open>SystemExit 1\<close>. In the loop of \<open>project_download\<close> the
  exception ends the batch at this element: the result is that of the one call, whatever
  elements remain.
\<close>

theorem name_collision_exits:
  assumes meta: "status_code (element_response e did) = 200"
    and de: "de = payload (element_response e did)"
    and l: "l = env_sanitize e (did @ ''.'' @ de_extension de)"
    and named: "snd (resolve_name rename (did @ ''.'' @ de_extension de) de w) = Inr chosen"
    and new: "new = env_sanitize e chosen"
    and differ: "new \<noteq> l"
    and taken: "exists (fs w) new"
    and unskipped: "snd (verify_local e l de w) = Inr False"
  shows "snd (download_data_element e did rename w) = Inl (SystemExit 1)
       \<and> last (stderr (fst (download_data_element e did rename w)))
           = [CHR 0x0D, newline, newline] @ ''Cannot rename '' @ l @ '' to '' @ new
               @ '' because path already exists. Stopping execution ...'' @ [newline]
       \<and> (\<forall>item rest flt. de_id item = did \<and> (flt = [] \<or> de_extension item \<in> set flt) \<longrightarrow>
            download_each e flt rename (item # rest) w
              = (fst (download_data_element e did rename w), Inl (SystemExit 1)))"
proof -
  from taken_name_stops_call [OF assms] obtain w4 where
    d: "download_data_element e did rename w =
           (stderr_write ([CHR 0x0D, newline, newline] @ ''Cannot rename '' @ l @ '' to '' @ new
               @ '' because path already exists. Stopping execution ...'' @ [newline]) w4,
            Inl (SystemExit 1))" by blast
  show ?thesis
    by (simp add: d)
qed

theorem name_collision_exits_witness:
  "snd (download_data_element sample_env ''e1'' ''ergo_name'' occupied_world) = Inl (SystemExit 1)
   \<and> download_each sample_env [] ''ergo_name'' [sample_element ''e1'', sample_element ''e4'']
        occupied_world
       = (fst (download_data_element sample_env ''e1'' ''ergo_name'' occupied_world),
          Inl (SystemExit 1))
   \<and> fs occupied_world ''reads_e1.fastq.gz'' = Some (File [9])"
proof -
  have meta: "status_code (element_response sample_env ''e1'') = 200"
    by (simp add: sample_defs)
  have de: "sample_element ''e1'' = payload (element_response sample_env ''e1'')"
    by (simp add: sample_defs)
  have l: "''e1.fastq.gz'' = env_sanitize sample_env (''e1'' @ ''.'' @ de_extension (sample_element ''e1''))"
    by (simp add: sample_defs)
  have named: "snd (resolve_name ''ergo_name'' (''e1'' @ ''.'' @ de_extension (sample_element ''e1''))
                 (sample_element ''e1'') occupied_world) = Inr ''reads_e1.fastq.gz''"
    by (simp add: resolve_name_def sample_defs)
  have new: "''reads_e1.fastq.gz'' = env_sanitize sample_env ''reads_e1.fastq.gz''"
    by (simp add: sample_defs)
  have differ: "''reads_e1.fastq.gz'' \<noteq> ''e1.fastq.gz''" by simp
  have taken: "exists (fs occupied_world) ''reads_e1.fastq.gz''"
    by (simp add: exists_def occupied_world_def)
  have unskipped: "snd (verify_local sample_env ''e1.fastq.gz'' (sample_element ''e1'') occupied_world)
                     = Inr False"
    by (simp add: verify_local_def exists_def occupied_world_def)
  note t = name_collision_exits [OF meta de l named new differ taken unskipped]
  from t have a: "snd (download_data_element sample_env ''e1'' ''ergo_name'' occupied_world)
                    = Inl (SystemExit 1)" by blast
  have b: "download_each sample_env [] ''ergo_name'' [sample_element ''e1'', sample_element ''e4'']
        occupied_world
       = (fst (download_data_element sample_env ''e1'' ''ergo_name'' occupied_world),
          Inl (SystemExit 1))"
    by (rule t [THEN conjunct2, THEN conjunct2, rule_format]) (simp add: sample_element_def)
  show ?thesis using a b by (simp add: occupied_world_def)
qed

section \<open>The id-based name in the check and in the write\<close>

text \<open>
  The check of the local file and the write both work on the sanitised id-based name. The
  lemmas below say what the check decides in terms of the file of that name and its
  checksum, and what follows: a call is skipped exactly when that file has the recorded
  checksum; without a file of that name the content is requested; a file of that name with
  another checksum is replaced; a download that is not renamed stays at that name; and a
  download that was renamed is downloaded again by the next call, which then stops at the
  taken name.
\<close>

lemma verify_local_mismatch:
  assumes "checksum (de_metadata de) = Some c"
    and "checksum_file (env_md5 e) (env_openssl e) (env_part_size e) (fs w) l (algorithm c) True
           = Inr v"
    and "v \<noteq> checksum_value c"
  shows "verify_local e l de w =
           (print ''Checksums do not match, re-downloading''
              (print (l @ '' exists locally, verifying checksums'') w), Inr False)"
proof -
  from assms(2) have "isfile (fs w) l" by (rule checksum_file_Inr_isfile)
  then have "exists (fs w) l" by (auto simp: isfile_def exists_def split: option.splits)
  with assms show ?thesis by (simp add: verify_local_def Let_def)
qed

lemma verify_local_True_iff:
  "snd (verify_local e l de w) = Inr True \<longleftrightarrow>
     (\<exists>c. checksum (de_metadata de) = Some c
        \<and> checksum_file (env_md5 e) (env_openssl e) (env_part_size e) (fs w) l (algorithm c) True
            = Inr (checksum_value c))"
proof
  assume "snd (verify_local e l de w) = Inr True"
  then show "\<exists>c. checksum (de_metadata de) = Some c
        \<and> checksum_file (env_md5 e) (env_openssl e) (env_part_size e) (fs w) l (algorithm c) True
            = Inr (checksum_value c)"
    by (auto simp: verify_local_def Let_def split: if_splits option.splits sum.splits)
next
  assume "\<exists>c. checksum (de_metadata de) = Some c
        \<and> checksum_file (env_md5 e) (env_openssl e) (env_part_size e) (fs w) l (algorithm c) True
            = Inr (checksum_value c)"
  then obtain c where "checksum (de_metadata de) = Some c"
    and "checksum_file (env_md5 e) (env_openssl e) (env_part_size e) (fs w) l (algorithm c) True
            = Inr (checksum_value c)" by blast
  from verify_local_match [OF this] show "snd (verify_local e l de w) = Inr True" by simp
qed


lemma resolve_name_stderr:
  "stderr (fst (resolve_name rename l de (request u w))) = stderr (fst (resolve_name rename l de w))"
  by (simp add: resolve_name_def split: option.splits)


lemma fetch_content_stderr [simp]: "stderr (fst (fetch_content e did l w)) = stderr w"
  by (simp add: fetch_content_def Let_def split: option.splits node.splits)

lemma fetch_content_requests:
  "requests (fst (fetch_content e did l w))
     = requests w @ [env_host e @ ''user/data_elements/'' @ did @ ''/download'']"
  by (simp add: fetch_content_def Let_def split: option.splits node.splits)

lemma rename_local_requests: "requests (fst (rename_local l new w)) = requests w"
  by (simp add: rename_local_def split: option.splits)

lemma rename_local_done:
  assumes "rename_local l new w4 = (w5, Inr u)" and "new \<noteq> l"
  shows "fs w5 l = None \<and> exists (fs w5) new"
  using assms by (auto simp: rename_local_def exists_def split: if_splits option.splits)

lemma skipped_iff_verified:
  assumes meta: "status_code (element_response e did) = 200"
    and de: "de = payload (element_response e did)"
    and l: "l = env_sanitize e (did @ ''.'' @ de_extension de)"
    and named: "snd (resolve_name rename (did @ ''.'' @ de_extension de) de w) = Inr chosen"
  shows "snd (download_data_element e did rename w) = Inr Skipped
           \<longleftrightarrow> snd (verify_local e l de w) = Inr True"
proof -
  define w2 where "w2 = fst (resolve_name rename (did @ ''.'' @ de_extension de) de
                    (request (env_host e @ ''user/data_elements/'' @ did) w))"
  have fs2: "fs w2 = fs w" by (simp add: w2_def)
  have rq2: "requests w2 = requests w @ [env_host e @ ''user/data_elements/'' @ did]"
    by (simp add: w2_def)
  obtain w3 r where v: "verify_local e l de w2 = (w3, r)" by (metis prod.collapse)
  from verify_local_result [OF fs2] have r: "snd (verify_local e l de w) = r"
    by (metis v snd_conv)
  show ?thesis
    unfolding download_steps [OF meta de named w2_def l refl] r
    by (auto simp: v split: prod.splits sum.splits bool.splits)
qed

lemma absent_local_requests_content:
  assumes meta: "status_code (element_response e did) = 200"
    and de: "de = payload (element_response e did)"
    and l: "l = env_sanitize e (did @ ''.'' @ de_extension de)"
    and named: "snd (resolve_name rename (did @ ''.'' @ de_extension de) de w) = Inr chosen"
    and absent: "\<not> exists (fs w) l"
  shows "requests (fst (download_data_element e did rename w))
           = requests w @ [env_host e @ ''user/data_elements/'' @ did,
                           env_host e @ ''user/data_elements/'' @ did @ ''/download'']"
proof -
  define w2 where "w2 = fst (resolve_name rename (did @ ''.'' @ de_extension de) de
                    (request (env_host e @ ''user/data_elements/'' @ did) w))"
  have fs2: "fs w2 = fs w" by (simp add: w2_def)
  have rq2: "requests w2 = requests w @ [env_host e @ ''user/data_elements/'' @ did]"
    by (simp add: w2_def)
  have "\<not> exists (fs w2) l" using absent by (simp add: fs2)
  then have v: "verify_local e l de w2 = (w2, Inr False)" by (rule verify_local_absent)
  obtain w4 rf where f: "fetch_content e did l w2 = (w4, rf)" by (metis prod.collapse)
  have "requests (fst (fetch_content e did l w2))
          = requests w2 @ [env_host e @ ''user/data_elements/'' @ did @ ''/download'']"
    by (rule fetch_content_requests)
  then have r4: "requests w4 = requests w @ [env_host e @ ''user/data_elements/'' @ did,
                           env_host e @ ''user/data_elements/'' @ did @ ''/download'']"
    by (simp add: f rq2)
  obtain w5 rr where n: "rename_local l (env_sanitize e chosen) w4 = (w5, rr)"
    by (metis prod.collapse)
  have "requests (fst (rename_local l (env_sanitize e chosen) w4)) = requests w4"
    by (rule rename_local_requests)
  then have r5: "requests w5 = requests w4" by (simp add: n)
  show ?thesis
    unfolding download_steps [OF meta de named w2_def l refl]
    by (simp add: v f n r4 r5 split: sum.splits)
qed

lemma renamed_download_not_recognised:
  assumes meta: "status_code (element_response e did) = 200"
    and de: "de = payload (element_response e did)"
    and l: "l = env_sanitize e (did @ ''.'' @ de_extension de)"
    and named: "snd (resolve_name rename (did @ ''.'' @ de_extension de) de w) = Inr chosen"
    and new: "new = env_sanitize e chosen"
    and differ: "new \<noteq> l"
    and first: "snd (download_data_element e did rename w) = Inr Downloaded"
  shows "snd (download_data_element e did rename (fst (download_data_element e did rename w)))
           = Inl (SystemExit 1)"
proof -
  let ?w1 = "fst (download_data_element e did rename w)"
  define w2 where "w2 = fst (resolve_name rename (did @ ''.'' @ de_extension de) de
                    (request (env_host e @ ''user/data_elements/'' @ did) w))"
  have "\<exists>w4 u. rename_local l new w4 = (?w1, Inr u)"
    using first unfolding download_steps [OF meta de named w2_def l new]
    by (auto split: prod.splits sum.splits bool.splits)
  then obtain w4 u where "rename_local l new w4 = (?w1, Inr u)" by blast
  from rename_local_done [OF this differ]
  have gone: "fs ?w1 l = None" and taken: "exists (fs ?w1) new" by simp_all
  from gone have "\<not> exists (fs ?w1) l" by (simp add: exists_def)
  then have "verify_local e l de ?w1 = (?w1, Inr False)" by (rule verify_local_absent)
  then have unskipped: "snd (verify_local e l de ?w1) = Inr False" by simp
  have named1: "snd (resolve_name rename (did @ ''.'' @ de_extension de) de ?w1) = Inr chosen"
    using named resolve_name_result by metis
  from taken_name_stops_call [OF meta de l named1 new differ taken unskipped]
  show ?thesis by auto
qed


text \<open>
  Without a file at the id-based name, with the content answered 200 and the chosen name
  taken, the content is written at the id-based name before the call stops.
\<close>

lemma collision_leaves_download:
  assumes meta: "status_code (element_response e did) = 200"
    and de: "de = payload (element_response e did)"
    and l: "l = env_sanitize e (did @ ''.'' @ de_extension de)"
    and named: "snd (resolve_name rename (did @ ''.'' @ de_extension de) de w) = Inr chosen"
    and new: "new = env_sanitize e chosen"
    and absent: "\<not> exists (fs w) l"
    and content: "status_code (content_response e did) = 200"
    and differ: "new \<noteq> l"
    and taken: "exists (fs w) new"
  shows "snd (download_data_element e did rename w) = Inl (SystemExit 1)
       \<and> fs (fst (download_data_element e did rename w)) l
           = Some (File (payload (content_response e did)))
       \<and> fs (fst (download_data_element e did rename w)) new = fs w new"
proof -
  define w2 where "w2 = fst (resolve_name rename (did @ ''.'' @ de_extension de) de
                    (request (env_host e @ ''user/data_elements/'' @ did) w))"
  have fs2: "fs w2 = fs w" by (simp add: w2_def)
  have "\<not> exists (fs w2) l" using absent by (simp add: fs2)
  then have v: "verify_local e l de w2 = (w2, Inr False)" by (rule verify_local_absent)
  have "fs w2 l \<noteq> Some Directory" using absent by (simp add: fs2 exists_def)
  note f = fetch_content_ok [OF content this]
  show ?thesis
    unfolding download_steps [OF meta de named w2_def l new]
    using differ taken
    by (simp add: v f fs2 rename_local_def exists_def)
qed

lemma skipped_iff_checksum:
  assumes meta: "status_code (element_response e did) = 200"
    and de: "de = payload (element_response e did)"
    and l: "l = env_sanitize e (did @ ''.'' @ de_extension de)"
    and named: "snd (resolve_name rename (did @ ''.'' @ de_extension de) de w) = Inr chosen"
  shows "snd (download_data_element e did rename w) = Inr Skipped \<longleftrightarrow>
           (\<exists>c. checksum (de_metadata de) = Some c
              \<and> checksum_file (env_md5 e) (env_openssl e) (env_part_size e) (fs w) l
                   (algorithm c) True = Inr (checksum_value c))"
  unfolding skipped_iff_verified [OF meta de l named] by (rule verify_local_True_iff)

lemma mismatching_local_overwritten:
  assumes meta: "status_code (element_response e did) = 200"
    and de: "de = payload (element_response e did)"
    and l: "l = env_sanitize e (did @ ''.'' @ de_extension de)"
    and named: "snd (resolve_name rename (did @ ''.'' @ de_extension de) de w) = Inr chosen"
    and new: "new = env_sanitize e chosen"
    and recorded: "checksum (de_metadata de) = Some c"
    and computed: "checksum_file (env_md5 e) (env_openssl e) (env_part_size e) (fs w) l
                     (algorithm c) True = Inr v"
    and mismatch: "v \<noteq> checksum_value c"
    and content: "status_code (content_response e did) = 200"
    and free: "new = l \<or> \<not> exists (fs w) new"
  shows "snd (download_data_element e did rename w) = Inr Downloaded
       \<and> fs (fst (download_data_element e did rename w)) new
           = Some (File (payload (content_response e did)))
       \<and> stderr (fst (download_data_element e did rename w))
           = stderr (fst (resolve_name rename (did @ ''.'' @ de_extension de) de w))"
proof -
  define w2 where "w2 = fst (resolve_name rename (did @ ''.'' @ de_extension de) de
                    (request (env_host e @ ''user/data_elements/'' @ did) w))"
  have fs2: "fs w2 = fs w" by (simp add: w2_def)
  have err2: "stderr w2 = stderr (fst (resolve_name rename (did @ ''.'' @ de_extension de) de w))"
    unfolding w2_def by (rule resolve_name_stderr)
  have "checksum_file (env_md5 e) (env_openssl e) (env_part_size e) (fs w2) l
                     (algorithm c) True = Inr v" using computed by (simp add: fs2)
  note v = verify_local_mismatch [OF recorded this mismatch]
  from computed have "isfile (fs w) l" by (rule checksum_file_Inr_isfile)
  then obtain old where old: "fs w l = Some (File old)"
    by (auto simp: isfile_def split: option.splits node.splits)
  define w3 where "w3 = print ''Checksums do not match, re-downloading''
              (print (l @ '' exists locally, verifying checksums'') w2)"
  have fs3: "fs w3 = fs w" and err3: "stderr w3 = stderr w2" by (simp_all add: w3_def fs2)
  have "fs w3 l \<noteq> Some Directory" using old by (simp add: fs3)
  note f = fetch_content_ok [OF content this]
  show ?thesis
    unfolding download_steps [OF meta de named w2_def l new] v w3_def [symmetric]
    using free old
    by (auto simp: f fs3 err3 err2 rename_local_def exists_def)
qed

text \<open>
  The download of \<open>e1\<close> under its display name into an empty directory, and the etag of
  the outdated copy.
\<close>

lemma sample_renamed_download:
  "snd (download_data_element sample_env ''e1'' ''ergo_name'' empty_world) = Inr Downloaded"
  by (simp add: download_data_element_def get_data_element_def check_status_def resolve_name_def
      verify_local_def fetch_content_def rename_local_def exists_def request_def written_content
      sample_defs Let_def)


lemma sample_stale_etag:
  "checksum_file sample_md5 sample_openssl 8 (fs stale_world) ''e1.fastq.gz'' ''etag'' True
     = Inr ([dquote] @ ''0208-1'' @ [dquote])"
  by (simp add: stale_world_def checksum_file_def algorithms_def isfile_def calculate_s3_etag_def
      read_chunks.simps sample_md5_def hexdigest_def digit_char_def str_nat.simps)

section \<open>Properties of repeated downloads\<close>




text \<open>
  Claim C10. For every choice of name, once the metadata request has answered 200 and a
  name is chosen: the call is skipped exactly when the file at the sanitised id-based name
  has the recorded checksum, whatever files exist under other names; when no file has that
  name the call is not skipped and requests the content; a file of that name whose checksum
  differs from the recorded one is replaced by the downloaded content, with no exception and
  nothing more on standard error than the choice of the name wrote, as long as the chosen
  name is the id-based one or is free; when the chosen name is taken, the content is still
  written at the id-based name before the call stops, and the file of the taken name is
  left alone; and after a download that was renamed no file has the id-based name, so the
  next call for the same element does not skip: it ends with \<open>SystemExit 1\<close> at the name the
  first call created.
\<close>

theorem skip_check_reads_id_name_only:
  assumes meta: "status_code (element_response e did) = 200"
    and de: "de = payload (element_response e did)"
    and l: "l = env_sanitize e (did @ ''.'' @ de_extension de)"
    and named: "snd (resolve_name rename (did @ ''.'' @ de_extension de) de w) = Inr chosen"
    and new: "new = env_sanitize e chosen"
  shows "(snd (download_data_element e did rename w) = Inr Skipped \<longleftrightarrow>
            (\<exists>c. checksum (de_metadata de) = Some c
               \<and> checksum_file (env_md5 e) (env_openssl e) (env_part_size e) (fs w) l
                    (algorithm c) True = Inr (checksum_value c)))
       \<and> (\<not> exists (fs w) l \<longrightarrow>
            snd (download_data_element e did rename w) \<noteq> Inr Skipped
            \<and> requests (fst (download_data_element e did rename w))
                = requests w @ [env_host e @ ''user/data_elements/'' @ did,
                                env_host e @ ''user/data_elements/'' @ did @ ''/download''])
       \<and> (\<forall>c v. checksum (de_metadata de) = Some c
              \<and> checksum_file (env_md5 e) (env_openssl e) (env_part_size e) (fs w) l
                   (algorithm c) True = Inr v
              \<and> v \<noteq> checksum_value c
              \<and> status_code (content_response e did) = 200
              \<and> (new = l \<or> \<not> exists (fs w) new) \<longrightarrow>
            snd (download_data_element e did rename w) = Inr Downloaded
            \<and> fs (fst (download_data_element e did rename w)) new
                = Some (File (payload (content_response e did)))
            \<and> stderr (fst (download_data_element e did rename w))
                = stderr (fst (resolve_name rename (did @ ''.'' @ de_extension de) de w)))
       \<and> (\<not> exists (fs w) l \<and> status_code (content_response e did) = 200
              \<and> new \<noteq> l \<and> exists (fs w) new \<longrightarrow>
            snd (download_data_element e did rename w) = Inl (SystemExit 1)
            \<and> fs (fst (download_data_element e did rename w)) l
                = Some (File (payload (content_response e did)))
            \<and> fs (fst (download_data_element e did rename w)) new = fs w new)
       \<and> (new \<noteq> l \<and> snd (download_data_element e did rename w) = Inr Downloaded \<longrightarrow>
            \<not> exists (fs (fst (download_data_element e did rename w))) l
            \<and> snd (download_data_element e did rename (fst (download_data_element e did rename w)))
                = Inl (SystemExit 1))"
proof (intro conjI impI allI)
  show "snd (download_data_element e did rename w) = Inr Skipped \<longleftrightarrow>
            (\<exists>c. checksum (de_metadata de) = Some c
               \<and> checksum_file (env_md5 e) (env_openssl e) (env_part_size e) (fs w) l
                    (algorithm c) True = Inr (checksum_value c))"
    by (rule skipped_iff_checksum [OF meta de l named])
next
  assume a: "\<not> exists (fs w) l"
  then have "snd (verify_local e l de w) = Inr False" by (simp add: verify_local_absent)
  then show "snd (download_data_element e did rename w) \<noteq> Inr Skipped"
    using skipped_iff_verified [OF meta de l named] by simp
  show "requests (fst (download_data_element e did rename w))
                = requests w @ [env_host e @ ''user/data_elements/'' @ did,
                                env_host e @ ''user/data_elements/'' @ did @ ''/download'']"
    by (rule absent_local_requests_content [OF meta de l named a])
next
  fix c v
  assume a: "checksum (de_metadata de) = Some c
              \<and> checksum_file (env_md5 e) (env_openssl e) (env_part_size e) (fs w) l
                   (algorithm c) True = Inr v
              \<and> v \<noteq> checksum_value c
              \<and> status_code (content_response e did) = 200
              \<and> (new = l \<or> \<not> exists (fs w) new)"
  then have s: "snd (download_data_element e did rename w) = Inr Downloaded
       \<and> fs (fst (download_data_element e did rename w)) new
           = Some (File (payload (content_response e did)))
       \<and> stderr (fst (download_data_element e did rename w))
           = stderr (fst (resolve_name rename (did @ ''.'' @ de_extension de) de w))"
    using mismatching_local_overwritten [OF meta de l named new] by blast
  from s show "snd (download_data_element e did rename w) = Inr Downloaded" by blast
  from s show "fs (fst (download_data_element e did rename w)) new
                = Some (File (payload (content_response e did)))" by blast
  from s show "stderr (fst (download_data_element e did rename w))
           = stderr (fst (resolve_name rename (did @ ''.'' @ de_extension de) de w))" by blast
next
  assume a: "\<not> exists (fs w) l \<and> status_code (content_response e did) = 200
              \<and> new \<noteq> l \<and> exists (fs w) new"
  then have s: "snd (download_data_element e did rename w) = Inl (SystemExit 1)
       \<and> fs (fst (download_data_element e did rename w)) l
           = Some (File (payload (content_response e did)))
       \<and> fs (fst (download_data_element e did rename w)) new = fs w new"
    using collision_leaves_download [OF meta de l named new] by blast
  from s show "snd (download_data_element e did rename w) = Inl (SystemExit 1)" by blast
  from s show "fs (fst (download_data_element e did rename w)) l
           = Some (File (payload (content_response e did)))" by blast
  from s show "fs (fst (download_data_element e did rename w)) new = fs w new" by blast
next
  assume a: "new \<noteq> l \<and> snd (download_data_element e did rename w) = Inr Downloaded"
  define w2 where "w2 = fst (resolve_name rename (did @ ''.'' @ de_extension de) de
                    (request (env_host e @ ''user/data_elements/'' @ did) w))"
  have "\<exists>w4 u. rename_local l new w4 = (fst (download_data_element e did rename w), Inr u)"
    using a unfolding download_steps [OF meta de named w2_def l new]
    by (auto split: prod.splits sum.splits bool.splits)
  then obtain w4 u where "rename_local l new w4 = (fst (download_data_element e did rename w), Inr u)"
    by blast
  from rename_local_done [OF this] a
  show "\<not> exists (fs (fst (download_data_element e did rename w))) l"
    by (simp add: exists_def)
  from a show "snd (download_data_element e did rename (fst (download_data_element e did rename w)))
              = Inl (SystemExit 1)"
    using renamed_download_not_recognised [OF meta de l named new] by blast
qed

theorem skip_check_reads_id_name_only_witness:
  "snd (download_data_element sample_env ''e1'' ''ergo_id'' stale_world) = Inr Downloaded
   \<and> fs (fst (download_data_element sample_env ''e1'' ''ergo_id'' stale_world)) ''e1.fastq.gz''
       = Some (File [1, 2, 3])
   \<and> stderr (fst (download_data_element sample_env ''e1'' ''ergo_id'' stale_world)) = []
   \<and> snd (download_data_element sample_env ''e1'' ''ergo_name'' occupied_world) = Inl (SystemExit 1)
   \<and> fs (fst (download_data_element sample_env ''e1'' ''ergo_name'' occupied_world)) ''e1.fastq.gz''
       = Some (File [1, 2, 3])
   \<and> fs (fst (download_data_element sample_env ''e1'' ''ergo_name'' occupied_world))
        ''reads_e1.fastq.gz'' = Some (File [9])
   \<and> requests (fst (download_data_element sample_env ''e1'' ''ergo_name'' empty_world))
       = [''https://ergo.igenbio.com/REST/api/ERGO/v1.0/user/data_elements/e1'',
          ''https://ergo.igenbio.com/REST/api/ERGO/v1.0/user/data_elements/e1/download'']
   \<and> \<not> exists (fs (fst (download_data_element sample_env ''e1'' ''ergo_name'' empty_world)))
          ''e1.fastq.gz''
   \<and> snd (download_data_element sample_env ''e1'' ''ergo_name''
            (fst (download_data_element sample_env ''e1'' ''ergo_name'' empty_world)))
       = Inl (SystemExit 1)
   \<and> snd (download_data_element sample_env ''e1'' ''ergo_id''
            \<lparr>fs = [''e1.fastq.gz'' \<mapsto> File [1, 2, 3]], stdout = [], stderr = [], requests = []\<rparr>)
       = Inr Skipped"
proof -
  let ?c = "\<lparr>algorithm = ''etag'', checksum_value = [dquote] @ ''0209-1'' @ [dquote]\<rparr>"
  let ?kept = "\<lparr>fs = [''e1.fastq.gz'' \<mapsto> File [1, 2, 3]], stdout = [], stderr = [],
                 requests = []\<rparr>"
  have meta: "status_code (element_response sample_env ''e1'') = 200"
    by (simp add: sample_defs)
  have de: "sample_element ''e1'' = payload (element_response sample_env ''e1'')"
    by (simp add: sample_defs)
  have l: "''e1.fastq.gz'' = env_sanitize sample_env (''e1'' @ ''.'' @ de_extension (sample_element ''e1''))"
    by (simp add: sample_defs)
  have params: "env_md5 sample_env = sample_md5" "env_openssl sample_env = sample_openssl"
    "env_part_size sample_env = 8" "status_code (content_response sample_env ''e1'') = 200"
    "payload (content_response sample_env ''e1'') = [1, 2, 3]"
    "env_host sample_env = ''https://ergo.igenbio.com/REST/api/ERGO/v1.0/''"
    "checksum (de_metadata (sample_element ''e1'')) = Some ?c"
    by (simp_all add: sample_defs)
  have by_id: "snd (resolve_name ''ergo_id'' (''e1'' @ ''.'' @ de_extension (sample_element ''e1''))
                 (sample_element ''e1'') w) = Inr ''e1.fastq.gz''"
    and quiet: "stderr (fst (resolve_name ''ergo_id'' (''e1'' @ ''.'' @ de_extension (sample_element ''e1''))
                 (sample_element ''e1'') w)) = stderr w" for w
    by (simp_all add: resolve_name_def sample_defs)
  have same: "''e1.fastq.gz'' = env_sanitize sample_env ''e1.fastq.gz''"
    by (simp add: sample_defs)
  have by_name: "snd (resolve_name ''ergo_name'' (''e1'' @ ''.'' @ de_extension (sample_element ''e1''))
                 (sample_element ''e1'') w) = Inr ''reads_e1.fastq.gz''" for w
    by (simp add: resolve_name_def sample_defs)
  have new: "''reads_e1.fastq.gz'' = env_sanitize sample_env ''reads_e1.fastq.gz''"
    by (simp add: sample_defs)
  note stale = skip_check_reads_id_name_only [OF meta de l by_id same, of stale_world]
  note kept = skip_check_reads_id_name_only [OF meta de l by_id same, of ?kept]
  note occupied = skip_check_reads_id_name_only [OF meta de l by_name new, of occupied_world]
  note renamed = skip_check_reads_id_name_only [OF meta de l by_name new, of empty_world]
  have a: "snd (download_data_element sample_env ''e1'' ''ergo_id'' stale_world) = Inr Downloaded
       \<and> fs (fst (download_data_element sample_env ''e1'' ''ergo_id'' stale_world)) ''e1.fastq.gz''
           = Some (File (payload (content_response sample_env ''e1'')))
       \<and> stderr (fst (download_data_element sample_env ''e1'' ''ergo_id'' stale_world))
           = stderr (fst (resolve_name ''ergo_id'' (''e1'' @ ''.'' @ de_extension (sample_element ''e1''))
                 (sample_element ''e1'') stale_world))"
    by (rule stale [THEN conjunct2, THEN conjunct2, THEN conjunct1, rule_format,
          of ?c "[dquote] @ ''0208-1'' @ [dquote]"])
      (simp add: params sample_stale_etag)
  have b: "snd (download_data_element sample_env ''e1'' ''ergo_name'' occupied_world) = Inl (SystemExit 1)
       \<and> fs (fst (download_data_element sample_env ''e1'' ''ergo_name'' occupied_world)) ''e1.fastq.gz''
           = Some (File (payload (content_response sample_env ''e1'')))
       \<and> fs (fst (download_data_element sample_env ''e1'' ''ergo_name'' occupied_world))
            ''reads_e1.fastq.gz'' = fs occupied_world ''reads_e1.fastq.gz''"
    by (rule occupied [THEN conjunct2, THEN conjunct2, THEN conjunct2, THEN conjunct1, rule_format])
      (simp add: params exists_def occupied_world_def)
  have c: "snd (download_data_element sample_env ''e1'' ''ergo_name'' empty_world) \<noteq> Inr Skipped
       \<and> requests (fst (download_data_element sample_env ''e1'' ''ergo_name'' empty_world))
           = requests empty_world @ [env_host sample_env @ ''user/data_elements/'' @ ''e1'',
                 env_host sample_env @ ''user/data_elements/'' @ ''e1'' @ ''/download'']"
    by (rule renamed [THEN conjunct2, THEN conjunct1, rule_format])
      (simp add: exists_def empty_world_def)
  have d: "\<not> exists (fs (fst (download_data_element sample_env ''e1'' ''ergo_name'' empty_world)))
              ''e1.fastq.gz''
       \<and> snd (download_data_element sample_env ''e1'' ''ergo_name''
            (fst (download_data_element sample_env ''e1'' ''ergo_name'' empty_world)))
          = Inl (SystemExit 1)"
    by (rule renamed [THEN conjunct2, THEN conjunct2, THEN conjunct2, THEN conjunct2, rule_format])
      (simp add: sample_renamed_download)
  have "\<exists>c. checksum (de_metadata (sample_element ''e1'')) = Some c
          \<and> checksum_file (env_md5 sample_env) (env_openssl sample_env) (env_part_size sample_env)
               (fs ?kept) ''e1.fastq.gz'' (algorithm c) True = Inr (checksum_value c)"
    by (simp add: params sample_etag)
  then have e: "snd (download_data_element sample_env ''e1'' ''ergo_id'' ?kept) = Inr Skipped"
    by (rule kept [THEN conjunct1, THEN iffD2])
  have a': "stderr (fst (download_data_element sample_env ''e1'' ''ergo_id'' stale_world)) = []"
    using a quiet [of stale_world] by (simp add: stale_world_def)
  have b': "fs (fst (download_data_element sample_env ''e1'' ''ergo_name'' occupied_world))
              ''reads_e1.fastq.gz'' = Some (File [9])"
    using b by (simp add: occupied_world_def)
  have c': "requests (fst (download_data_element sample_env ''e1'' ''ergo_name'' empty_world))
       = [''https://ergo.igenbio.com/REST/api/ERGO/v1.0/user/data_elements/e1'',
          ''https://ergo.igenbio.com/REST/api/ERGO/v1.0/user/data_elements/e1/download'']"
    using c by (simp add: params empty_world_def)
  show ?thesis using a a' b b' c' d e
    by (simp add: params)
qed

end
